theory Spec2Isabelle
  imports Main "HOL-Library.Sublist" "HOL-Library.Char_ord" "HOL-Library.List_Lexorder"
begin

section \<open>Strings and paths\<close>

text \<open>
  The repository builder is one Go file, \<^verbatim>\<open>main.go\<close>.  Go strings are byte sequences, modelled as
  \<^typ>\<open>string\<close>.  The functions of this section are the ones of Go's \<^verbatim>\<open>strings\<close>,
  \<^verbatim>\<open>fmt\<close>, \<^verbatim>\<open>regexp\<close> and \<^verbatim>\<open>path/filepath\<close> packages (Unix flavour, separator \<^verbatim>\<open>/\<close>)
  that \<^verbatim>\<open>main.go\<close> calls, at the arguments it calls them with.
\<close>

abbreviation nl :: char where
  "nl \<equiv> CHR 0x0A"

abbreviation sep :: char where
  "sep \<equiv> CHR ''/''"

text \<open>\<^verbatim>\<open>strings.Split(s, c)\<close> for a one-byte separator: always at least one piece.\<close>

fun splitOn :: "char \<Rightarrow> string \<Rightarrow> string list" where
  "splitOn c [] = [[]]"
| "splitOn c (x # xs) =
     (if x = c then [] # splitOn c xs
      else (case splitOn c xs of
              [] \<Rightarrow> [[x]]
            | p # ps \<Rightarrow> (x # p) # ps))"

text \<open>\<^verbatim>\<open>strings.Join(elems, sep)\<close>.\<close>

fun joinWith :: "string \<Rightarrow> string list \<Rightarrow> string" where
  "joinWith s [] = []"
| "joinWith s [x] = x"
| "joinWith s (x # y # ys) = x @ s @ joinWith s (y # ys)"

text \<open>\<^verbatim>\<open>strings.TrimPrefix(s, p)\<close>.\<close>

definition TrimPrefix :: "string \<Rightarrow> string \<Rightarrow> string" where
  "TrimPrefix s p = (if prefix p s then drop (length p) s else s)"

text \<open>
  \<open>findAfter lit s\<close> is the text that follows the leftmost occurrence of \<open>lit\<close> in \<open>s\<close>;
  \<^verbatim>\<open>strings.Contains(s, lit)\<close> is whether there is one.
\<close>

fun findAfter :: "string \<Rightarrow> string \<Rightarrow> string option" where
  "findAfter lit [] = (if lit = [] then Some [] else None)"
| "findAfter lit (x # xs) =
     (if prefix lit (x # xs) then Some (drop (length lit) (x # xs)) else findAfter lit xs)"

definition Contains :: "string \<Rightarrow> string \<Rightarrow> bool" where
  "Contains s lit = (findAfter lit s \<noteq> None)"

text \<open>
  \<^verbatim>\<open>regexp.MustCompile(lit + "(.*)").FindStringSubmatch(s)\<close> for a literal \<open>lit\<close>: the leftmost
  occurrence of \<open>lit\<close>, and as group 1 the rest of that line (\<^verbatim>\<open>.\<close> does not match a newline).
  \<open>None\<close> is Go's \<^verbatim>\<open>nil\<close> result when nothing matches.
\<close>

definition FindStringSubmatch :: "string \<Rightarrow> string \<Rightarrow> string list option" where
  "FindStringSubmatch lit s =
     (case findAfter lit s of
        None \<Rightarrow> None
      | Some rest \<Rightarrow> Some [lit @ takeWhile (\<lambda>c. c \<noteq> nl) rest, takeWhile (\<lambda>c. c \<noteq> nl) rest])"

text \<open>\<^verbatim>\<open>strings.ToUpper\<close> on ASCII text.\<close>

definition upperChar :: "char \<Rightarrow> char" where
  "upperChar c =
     (if (of_char (CHR ''a'') :: nat) \<le> of_char c \<and> (of_char c :: nat) \<le> of_char (CHR ''z'')
      then char_of ((of_char c :: nat) - 32) else c)"

definition ToUpper :: "string \<Rightarrow> string" where
  "ToUpper s = map upperChar s"

text \<open>
  \<^verbatim>\<open>fmt.Sprint\<close> of a non-negative integer: its decimal digits, read from the digit table of
  \<^verbatim>\<open>fmt\<close> (only used below 16).
\<close>

definition digitChar :: "nat \<Rightarrow> char" where
  "digitChar d = ''0123456789abcdef'' ! d"

fun Sprint :: "nat \<Rightarrow> string" where
  "Sprint n = (if n < 10 then [digitChar n] else Sprint (n div 10) @ [digitChar (n mod 10)])"

declare Sprint.simps [simp del]

text \<open>\<^verbatim>\<open>fmt.Sprintf("%x", bytes)\<close>: two lower-case hexadecimal digits per byte.\<close>

definition hex :: "string \<Rightarrow> string" where
  "hex bs = concat (map (\<lambda>b. [digitChar ((of_char b :: nat) div 16), digitChar ((of_char b :: nat) mod 16)]) bs)"

text \<open>\<^verbatim>\<open>fmt.Sprintf("%-80s", s)\<close>: \<open>s\<close> padded with spaces on the right to 80 columns.\<close>

definition padRight :: "nat \<Rightarrow> string \<Rightarrow> string" where
  "padRight w s = s @ replicate (w - length s) (CHR '' '')"

subsection \<open>path/filepath\<close>

text \<open>
  \<^verbatim>\<open>filepath.Clean\<close>: empty and \<^verbatim>\<open>.\<close> elements go, an inner \<^verbatim>\<open>..\<close> removes the element before
  it, \<^verbatim>\<open>..\<close> at the root of a rooted path goes, the empty result is \<^verbatim>\<open>.\<close>.  The second argument of
  \<open>cleanElems\<close> is the stack of elements kept so far, last first.
\<close>

fun cleanElems :: "bool \<Rightarrow> string list \<Rightarrow> string list \<Rightarrow> string list" where
  "cleanElems rooted acc [] = rev acc"
| "cleanElems rooted acc (e # es) =
     (if e = [] \<or> e = ''.'' then cleanElems rooted acc es
      else if e = ''..'' then
        (case acc of
           [] \<Rightarrow> if rooted then cleanElems rooted [] es else cleanElems rooted [''..''] es
         | a # as \<Rightarrow> if a = ''..'' then cleanElems rooted (''..'' # acc) es
                     else cleanElems rooted as es)
      else cleanElems rooted (e # acc) es)"

definition Clean :: "string \<Rightarrow> string" where
  "Clean path =
     (let rooted = (path \<noteq> [] \<and> hd path = sep);
          out = joinWith ''/'' (cleanElems rooted [] (splitOn sep path))
      in if rooted then sep # out else if out = [] then ''.'' else out)"

text \<open>\<^verbatim>\<open>filepath.Join\<close>: leading empty elements are skipped, the rest is joined and cleaned.\<close>

definition Join :: "string list \<Rightarrow> string" where
  "Join elem =
     (case dropWhile (\<lambda>e. e = []) elem of
        [] \<Rightarrow> []
      | es \<Rightarrow> Clean (joinWith ''/'' es))"

text \<open>\<^verbatim>\<open>filepath.Dir\<close>: all but the last element, cleaned.\<close>

definition Dir :: "string \<Rightarrow> string" where
  "Dir path = Clean (rev (dropWhile (\<lambda>c. c \<noteq> sep) (rev path)))"

text \<open>\<^verbatim>\<open>filepath.Base\<close>: the last element, trailing separators removed first.\<close>

definition Base :: "string \<Rightarrow> string" where
  "Base path =
     (if path = [] then ''.''
      else let p = rev (dropWhile (\<lambda>c. c = sep) (rev path));
               b = rev (takeWhile (\<lambda>c. c \<noteq> sep) (rev p))
           in if b = [] then ''/'' else b)"

section \<open>The process and its environment\<close>

text \<open>
  The program ends in one of three ways: it returns from \<^verbatim>\<open>main\<close>, it calls \<^verbatim>\<open>os.Exit\<close>, or the Go
  runtime panics (an index out of range), which prints the runtime's message and exits with status 2.
\<close>

datatype abort = Exit nat | Panic string

fun exitCode :: "abort \<Rightarrow> nat" where
  "exitCode (Exit n) = n"
| "exitCode (Panic msg) = 2"

text \<open>What the program does to the outside, in the order it does it.\<close>

datatype event =
    Stdout string
  | Stderr string
  | Exec string
  | RemoveAll string
  | MkdirAll string
  | Link string string
  | Create string
  | Copy string string
  | Sync string
  | OpenAppend string
  | Write string string
  | Xz string string
  | Gpg "string list"

text \<open>The calls that create or change a file or directory below the output tree.\<close>

fun writesFile :: "event \<Rightarrow> bool" where
  "writesFile (MkdirAll p) = True"
| "writesFile (Link src dst) = True"
| "writesFile (Create p) = True"
| "writesFile (Copy dst src) = True"
| "writesFile (Sync p) = True"
| "writesFile (OpenAppend p) = True"
| "writesFile (Write p d) = True"
| "writesFile (Xz dst src) = True"
| "writesFile e = False"

fun isRemoveAll :: "event \<Rightarrow> bool" where
  "isRemoveAll (RemoveAll p) = True"
| "isRemoveAll e = False"

fun isOutput :: "event \<Rightarrow> bool" where
  "isOutput (Stdout t) = True"
| "isOutput (Stderr t) = True"
| "isOutput e = False"

fun isStderr :: "event \<Rightarrow> bool" where
  "isStderr (Stderr t) = True"
| "isStderr e = False"

datatype stat_result = StatOk nat | StatNotExist | StatError

text \<open>
  The operating system, the external tools and the libraries behind them are a parameter: a world
  \<open>'w\<close> and, for every call the program makes, what the call answers in a world and the world it
  leaves.  A \<open>bool\<close> answer is whether the call returned a \<^verbatim>\<open>nil\<close> error.  \<open>sh_output\<close> is
  \<^verbatim>\<open>exec.Command("sh", "-c", cmd).Output()\<close> (\<open>None\<close> for an error), \<open>os_stat\<close> gives the size
  of what it finds, \<open>read_all\<close> is what \<^verbatim>\<open>io.Copy\<close> reads from an opened file, \<open>digest\<close> is the
  \<^verbatim>\<open>crypto\<close> hash named by its first argument, \<open>xz_new_writer\<close> and \<open>xz_copy dst src\<close> are
  \<^verbatim>\<open>xz.NewWriter\<close> and \<^verbatim>\<open>io.Copy\<close> through that writer (\<open>Some\<close> the text of the error),
  \<open>time_now\<close> is \<^verbatim>\<open>time.Now().UTC().Format(time.RFC1123)\<close>.
\<close>

record 'w sys =
  sh_output :: "string \<Rightarrow> 'w \<Rightarrow> string option \<times> 'w"
  os_stat :: "string \<Rightarrow> 'w \<Rightarrow> stat_result"
  os_mkdir_all :: "string \<Rightarrow> 'w \<Rightarrow> bool \<times> 'w"
  os_remove_all :: "string \<Rightarrow> 'w \<Rightarrow> bool \<times> 'w"
  os_link :: "string \<Rightarrow> string \<Rightarrow> 'w \<Rightarrow> bool \<times> 'w"
  os_open :: "string \<Rightarrow> 'w \<Rightarrow> bool"
  os_create :: "string \<Rightarrow> 'w \<Rightarrow> bool \<times> 'w"
  io_copy :: "string \<Rightarrow> string \<Rightarrow> 'w \<Rightarrow> bool \<times> 'w"
  file_sync :: "string \<Rightarrow> 'w \<Rightarrow> bool \<times> 'w"
  os_open_append :: "string \<Rightarrow> 'w \<Rightarrow> bool \<times> 'w"
  file_write :: "string \<Rightarrow> string \<Rightarrow> 'w \<Rightarrow> bool \<times> 'w"
  path_glob :: "string \<Rightarrow> 'w \<Rightarrow> string list option"
  read_dir :: "string \<Rightarrow> 'w \<Rightarrow> (string \<times> bool) list"
  read_all :: "string \<Rightarrow> 'w \<Rightarrow> string"
  digest :: "string \<Rightarrow> string \<Rightarrow> string"
  xz_new_writer :: "string \<Rightarrow> 'w \<Rightarrow> string option"
  xz_copy :: "string \<Rightarrow> string \<Rightarrow> 'w \<Rightarrow> string option \<times> 'w"
  run_gpg :: "string list \<Rightarrow> 'w \<Rightarrow> bool \<times> 'w"
  time_now :: "'w \<Rightarrow> string"

text \<open>The command-line flags after \<^verbatim>\<open>flag.Parse\<close>; \<open>usageText\<close> is what \<^verbatim>\<open>flag.Usage\<close> prints.\<close>

record config =
  inputPath :: string
  outputPath :: string
  distribution :: string
  defaultComponent :: string
  useHardLinks :: bool
  signRepo :: bool
  usageText :: string

text \<open>
  The state of a run: the world, the events so far, and the two package-level variables
  \<^verbatim>\<open>COMPONENTS\<close> and \<^verbatim>\<open>encounteredArches\<close> (a map whose values are all \<^verbatim>\<open>true\<close>: its key set).
\<close>

record 'w state =
  world :: 'w
  trace :: "event list"
  COMPONENTS :: "string list"
  encounteredArches :: "string set"

type_synonym ('w, 'a) prog = "'w state \<Rightarrow> (abort + 'a) \<times> 'w state"

definition ret :: "'a \<Rightarrow> ('w, 'a) prog" where
  "ret x = (\<lambda>s. (Inr x, s))"

definition bnd :: "('w, 'a) prog \<Rightarrow> ('a \<Rightarrow> ('w, 'b) prog) \<Rightarrow> ('w, 'b) prog" where
  "bnd m k = (\<lambda>s. case m s of (Inl e, s') \<Rightarrow> (Inl e, s') | (Inr x, s') \<Rightarrow> k x s')"

definition osExit :: "nat \<Rightarrow> ('w, 'a) prog" where
  "osExit n = (\<lambda>s. (Inl (Exit n), s))"

definition panic :: "string \<Rightarrow> ('w, 'a) prog" where
  "panic msg = (\<lambda>s. (Inl (Panic msg), s))"

definition emit :: "event \<Rightarrow> ('w, unit) prog" where
  "emit e = (\<lambda>s. (Inr (), s\<lparr>trace := trace s @ [e]\<rparr>))"

text \<open>A call that only observes the world, and a call that may change it (logged as an event).\<close>

definition observe :: "('w \<Rightarrow> 'a) \<Rightarrow> ('w, 'a) prog" where
  "observe f = (\<lambda>s. (Inr (f (world s)), s))"

definition act :: "event \<Rightarrow> ('w \<Rightarrow> 'a \<times> 'w) \<Rightarrow> ('w, 'a) prog" where
  "act e f = (\<lambda>s. case f (world s) of (r, w') \<Rightarrow> (Inr r, s\<lparr>world := w', trace := trace s @ [e]\<rparr>))"

text \<open>\<^verbatim>\<open>for _, x := range xs { body }\<close>.\<close>

primrec foreach :: "'a list \<Rightarrow> ('a \<Rightarrow> ('w, unit) prog) \<Rightarrow> ('w, unit) prog" where
  "foreach [] body = ret ()"
| "foreach (x # xs) body = bnd (body x) (\<lambda>_. foreach xs body)"

text \<open>Indexing a slice: out of range is a runtime panic.\<close>

definition index :: "'a list \<Rightarrow> nat \<Rightarrow> ('w, 'a) prog" where
  "index xs i =
     (if i < length xs then ret (xs ! i)
      else panic (''runtime error: index out of range ['' @ Sprint i @ ''] with length ''
                  @ Sprint (length xs)))"

section \<open>The functions of main.go\<close>

text \<open>
  The model starts after \<^verbatim>\<open>flag.Parse\<close>: \<^verbatim>\<open>init\<close>, the \<^verbatim>\<open>--version\<close> banner and the unused
  \<^verbatim>\<open>getPackageName\<close> are left out.  Deferred \<^verbatim>\<open>Close\<close> calls are not events.  The package-level
  variable \<^verbatim>\<open>distributionPath\<close>, assigned once at line 195, is a function of the flags.
\<close>

definition supportedArches :: "string list" where
  "supportedArches = [''all'', ''arm'', ''aarch64'']"

definition hashes :: "string list" where
  "hashes = [''md5'', ''sha1'', ''sha256'', ''sha512'']"

text \<open>\<^verbatim>\<open>fmt.Fprintf(os.Stderr, msg)\<close> followed by \<^verbatim>\<open>os.Exit(1)\<close>.\<close>

definition fatal :: "string \<Rightarrow> ('w, 'a) prog" where
  "fatal msg = bnd (emit (Stderr msg)) (\<lambda>_. osExit 1)"

definition runShellCommand :: "'w sys \<Rightarrow> string \<Rightarrow> ('w, string option) prog" where
  "runShellCommand sys cmd = act (Exec cmd) (sh_output sys cmd)"

fun contains :: "string list \<Rightarrow> string \<Rightarrow> bool" where
  "contains [] item = False"
| "contains (v # vs) item = (if v = item then True else contains vs item)"

definition controlFileContents :: "'w sys \<Rightarrow> string \<Rightarrow> ('w, string) prog" where
  "controlFileContents sys debfile =
     bnd (runShellCommand sys (''ar t '' @ debfile)) (\<lambda>r.
       case r of
         None \<Rightarrow>
           fatal (''Error listing contents of '' @ [CHR 0x27] @ debfile @ [CHR 0x27, nl])
       | Some fileList \<Rightarrow>
           bnd (if Contains fileList ''control.tar.gz'' then ret (''control.tar.gz'', ''-z'')
                else if Contains fileList ''control.tar.xz'' then ret (''control.tar.xz'', ''-J'')
                else fatal (''Failed to find control file in '' @ [CHR 0x27] @ debfile @ [CHR 0x27, nl]))
             (\<lambda>(controlFilename, tarArgs).
           bnd (runShellCommand sys (''ar p '' @ debfile @ '' '' @ controlFilename @ '' | tar -O ''
                                     @ tarArgs @ '' -xf - ./control'')) (\<lambda>r.
             case r of
               None \<Rightarrow>
                 fatal (''Error extracting control file from '' @ [CHR 0x27] @ debfile @ [CHR 0x27, nl])
             | Some contents \<Rightarrow> ret contents)))"

definition listPackageFiles :: "'w sys \<Rightarrow> string \<Rightarrow> ('w, string list) prog" where
  "listPackageFiles sys debfile =
     bnd (runShellCommand sys (''ar p '' @ debfile @ '' data.tar.xz | tar -tJ'')) (\<lambda>r.
       case r of
         None \<Rightarrow>
           fatal (''Error listing package files for '' @ [CHR 0x27] @ debfile @ [CHR 0x27, nl])
       | Some allContent \<Rightarrow>
           ret (map (\<lambda>file. TrimPrefix file ''./'')
                  (filter (\<lambda>file. length file > 0 \<and> last file \<noteq> sep) (splitOn nl allContent))))"

definition copyFile :: "'w sys \<Rightarrow> string \<Rightarrow> string \<Rightarrow> ('w, bool) prog" where
  "copyFile sys src dst =
     bnd (observe (os_open sys src)) (\<lambda>ok.
       if \<not> ok then ret False
       else bnd (act (Create dst) (os_create sys dst)) (\<lambda>ok.
         if \<not> ok then ret False
         else bnd (act (Copy dst src) (io_copy sys dst src)) (\<lambda>ok.
           if \<not> ok then ret False
           else act (Sync dst) (file_sync sys dst))))"

definition distributionPath :: "config \<Rightarrow> string" where
  "distributionPath cfg = Join [outputPath cfg, ''dists'', distribution cfg]"

text \<open>
  \<^verbatim>\<open>addDeb\<close>.  The results of \<^verbatim>\<open>os.MkdirAll\<close> and \<^verbatim>\<open>os.Link\<close> are dropped by the source, and
  so are those of the \<^verbatim>\<open>fmt.Fprintf\<close> calls on the contents file.
\<close>

definition addDeb :: "'w sys \<Rightarrow> config \<Rightarrow> string \<Rightarrow> string \<Rightarrow> bool \<Rightarrow> ('w, unit) prog" where
  "addDeb sys cfg debToAddPath component hardLinks =
     bnd (controlFileContents sys debToAddPath) (\<lambda>debToAddControlFile.
     bnd (index (case FindStringSubmatch ''Package: '' debToAddControlFile of
                   None \<Rightarrow> [] | Some m \<Rightarrow> m) 1) (\<lambda>debToAddPkgName.
     bnd (index (case FindStringSubmatch ''Architecture: '' debToAddControlFile of
                   None \<Rightarrow> [] | Some m \<Rightarrow> m) 1) (\<lambda>debArch.
     bnd (if \<not> contains supportedArches debArch
          then fatal (''Unsupported arch '' @ [CHR 0x27] @ debArch @ [CHR 0x27] @ '' in '' @ [CHR 0x27] @ Base debToAddPath @ [CHR 0x27, nl])
          else ret ()) (\<lambda>_.
     bnd (\<lambda>s. (Inr (), s\<lparr>encounteredArches := insert debArch (encounteredArches s)\<rparr>)) (\<lambda>_.
     let archDirPath = Join [distributionPath cfg, component, ''binary-'' @ debArch] in
     bnd (observe (os_stat sys archDirPath)) (\<lambda>st.
     bnd (if st = StatNotExist
          then bnd (act (MkdirAll archDirPath) (os_mkdir_all sys archDirPath)) (\<lambda>_. ret ())
          else ret ()) (\<lambda>_.
     bnd (emit (Stdout (''Adding deb file: '' @ Base debToAddPath @ [nl]))) (\<lambda>_.
     let destDebDirPath = Join [distributionPath cfg, component, ''binary-'' @ debArch] in
     bnd (observe (os_stat sys destDebDirPath)) (\<lambda>st.
     bnd (if st = StatNotExist
          then bnd (act (MkdirAll destDebDirPath) (os_mkdir_all sys destDebDirPath)) (\<lambda>_. ret ())
          else ret ()) (\<lambda>_.
     let destinationDebFile = Join [destDebDirPath, Base debToAddPath] in
     bnd (if hardLinks
          then bnd (act (Link debToAddPath destinationDebFile)
                      (os_link sys debToAddPath destinationDebFile)) (\<lambda>_. ret ())
          else bnd (copyFile sys debToAddPath destinationDebFile) (\<lambda>ok.
                 if \<not> ok
                 then fatal (''Error copying file '' @ [CHR 0x27] @ debToAddPath @ [CHR 0x27, nl])
                 else ret ())) (\<lambda>_.
     let contentsPath = Join [distributionPath cfg, component, ''Contents-'' @ debArch] in
     bnd (act (OpenAppend contentsPath) (os_open_append sys contentsPath)) (\<lambda>ok.
     bnd (if \<not> ok
          then fatal (''Error opening contents file for '' @ [CHR 0x27] @ debArch @ [CHR 0x27, nl])
          else ret ()) (\<lambda>_.
     bnd (listPackageFiles sys destinationDebFile) (\<lambda>files.
     foreach files (\<lambda>f.
       bnd (act (Write contentsPath (padRight 80 f @ '' '' @ debToAddPkgName @ [nl]))
              (file_write sys contentsPath (padRight 80 f @ '' '' @ debToAddPkgName @ [nl])))
         (\<lambda>_. ret ()))))))))))))))))"

text \<open>
  The body of the first loop of \<^verbatim>\<open>main\<close> (lines 219 to 231): \<open>componentOf\<close> is lines 220 to 223,
  \<open>registerComponent\<close> is lines 224 to 229 (the component is appended to \<^verbatim>\<open>COMPONENTS\<close> and its
  directory removed when \<^verbatim>\<open>os.Stat\<close> finds it; the result of \<^verbatim>\<open>os.RemoveAll\<close> is dropped), then
  \<^verbatim>\<open>addDeb\<close> is called.
\<close>

definition componentOf :: "config \<Rightarrow> string \<Rightarrow> string" where
  "componentOf cfg debPath =
     (let component = Dir (TrimPrefix debPath (inputPath cfg))
      in if component = ''.'' then defaultComponent cfg else component)"

fun statOk :: "stat_result \<Rightarrow> bool" where
  "statOk (StatOk n) = True"
| "statOk r = False"

definition registerComponent :: "'w sys \<Rightarrow> config \<Rightarrow> string \<Rightarrow> ('w, unit) prog" where
  "registerComponent sys cfg component =
     (\<lambda>s. if \<not> contains (COMPONENTS s) component
          then bnd (\<lambda>s. (Inr (), s\<lparr>COMPONENTS := COMPONENTS s @ [component]\<rparr>)) (\<lambda>_.
               bnd (observe (os_stat sys (Join [distributionPath cfg, component]))) (\<lambda>st.
                 if statOk st
                 then bnd (act (RemoveAll (Join [distributionPath cfg, component]))
                             (os_remove_all sys (Join [distributionPath cfg, component])))
                        (\<lambda>_. ret ())
                 else ret ())) s
          else ret () s)"

definition placePackage :: "'w sys \<Rightarrow> config \<Rightarrow> string \<Rightarrow> ('w, unit) prog" where
  "placePackage sys cfg debPath =
     bnd (registerComponent sys cfg (componentOf cfg debPath)) (\<lambda>_.
     addDeb sys cfg debPath (componentOf cfg debPath) (useHardLinks cfg))"

text \<open>The helpers that swallow errors: \<^verbatim>\<open>glob\<close>, \<^verbatim>\<open>filterDirs\<close>, \<^verbatim>\<open>hashFile\<close>, \<^verbatim>\<open>fileSize\<close>.
  A \<^verbatim>\<open>nil\<close> byte slice is the empty string.  \<^verbatim>\<open>hashFile\<close> is only ever called with a name from
  \<open>hashes\<close>, so its \<^verbatim>\<open>switch\<close> always finds the hash; the error of \<^verbatim>\<open>io.Copy\<close> is dropped.\<close>

definition glob :: "'w sys \<Rightarrow> string \<Rightarrow> 'w \<Rightarrow> string list" where
  "glob sys pattern w = (case path_glob sys pattern w of None \<Rightarrow> [] | Some matches \<Rightarrow> matches)"

definition filterDirs :: "'w sys \<Rightarrow> string \<Rightarrow> 'w \<Rightarrow> string list" where
  "filterDirs sys root w = map fst (filter snd (read_dir sys root w))"

definition hashFile :: "'w sys \<Rightarrow> string \<Rightarrow> string \<Rightarrow> 'w \<Rightarrow> string" where
  "hashFile sys hashType filename w =
     (if \<not> os_open sys filename w then []
      else digest sys hashType (read_all sys filename w))"

definition fileSize :: "'w sys \<Rightarrow> string \<Rightarrow> 'w \<Rightarrow> nat" where
  "fileSize sys filename w = (case os_stat sys filename w of StatOk n \<Rightarrow> n | _ \<Rightarrow> 0)"

definition mapKeys :: "string set \<Rightarrow> string list" where
  "mapKeys m = sorted_list_of_set m"

definition hashString :: "string \<Rightarrow> string" where
  "hashString hashType = (if hashType = ''md5'' then ''MD5Sum'' else ToUpper hashType)"

text \<open>\<^verbatim>\<open>fmt.Fprint\<close> to an open file; the source never looks at its result.\<close>

definition fprint :: "'w sys \<Rightarrow> string \<Rightarrow> string \<Rightarrow> ('w, unit) prog" where
  "fprint sys path text = bnd (act (Write path text) (file_write sys path text)) (\<lambda>_. ret ())"

definition println :: "string \<Rightarrow> ('w, unit) prog" where
  "println text = emit (Stdout (text @ [nl]))"

definition compressXz :: "'w sys \<Rightarrow> string \<Rightarrow> string \<Rightarrow> ('w, unit) prog" where
  "compressXz sys inPath outPath =
     bnd (observe (os_open sys inPath)) (\<lambda>ok.
     bnd (if \<not> ok
          then fatal (''Error opening input file for xz compression: '' @ [CHR 0x27] @ inPath
                      @ [CHR 0x27, nl])
          else ret ()) (\<lambda>_.
     bnd (act (Create outPath) (os_create sys outPath)) (\<lambda>ok.
     bnd (if \<not> ok
          then fatal (''Error creating output file for xz compression: '' @ [CHR 0x27] @ outPath
                      @ [CHR 0x27, nl])
          else ret ()) (\<lambda>_.
     bnd (observe (xz_new_writer sys outPath)) (\<lambda>err.
     bnd (case err of
            Some e \<Rightarrow> fatal (''Error creating xz writer: '' @ e @ [nl])
          | None \<Rightarrow> ret ()) (\<lambda>_.
     bnd (act (Xz outPath inPath) (xz_copy sys outPath inPath)) (\<lambda>err.
       case err of
         Some e \<Rightarrow> fatal (''Error compressing file to xz: '' @ e @ [nl])
       | None \<Rightarrow> ret ())))))))"

text \<open>The six header lines of the Release file (lines 241 to 246 of \<^verbatim>\<open>main.go\<close>).\<close>

definition writeReleaseHeader :: "'w sys \<Rightarrow> config \<Rightarrow> string \<Rightarrow> ('w, unit) prog" where
  "writeReleaseHeader sys cfg releaseFilePath =
     bnd (fprint sys releaseFilePath (''Codename: termux'' @ [nl])) (\<lambda>_.
     bnd (fprint sys releaseFilePath (''Version: 1'' @ [nl])) (\<lambda>_.
     bnd (\<lambda>s. fprint sys releaseFilePath
                 (''Architectures: '' @ joinWith '' '' (mapKeys (encounteredArches s)) @ [nl]) s) (\<lambda>_.
     bnd (fprint sys releaseFilePath (''Description: '' @ distribution cfg @ '' repository'' @ [nl])) (\<lambda>_.
     bnd (fprint sys releaseFilePath (''Suite: '' @ distribution cfg @ [nl])) (\<lambda>_.
     bnd (observe (time_now sys)) (\<lambda>now.
     fprint sys releaseFilePath (''Date: '' @ now @ [nl])))))))"

text \<open>One entry of a Packages file: the body of the loop over the \<^verbatim>\<open>.deb\<close> files of a
  \<^verbatim>\<open>binary-<arch>\<close> directory (lines 262 to 279).\<close>

definition packagesEntry ::
  "'w sys \<Rightarrow> config \<Rightarrow> string \<Rightarrow> string \<Rightarrow> string \<Rightarrow> string \<Rightarrow> ('w, unit) prog" where
  "packagesEntry sys cfg component binaryPath packagesFilePath debToReadPath =
     bnd (controlFileContents sys debToReadPath) (\<lambda>contents.
     bnd (observe (fileSize sys debToReadPath)) (\<lambda>size.
     bnd (observe (\<lambda>w.
            foldl (\<lambda>out hashType.
                     out @ [nl] @ hashString hashType @ '': '' @ hex (hashFile sys hashType debToReadPath w))
              (contents
               @ [nl] @ ''Filename: ''
               @ Join [''dists'', distribution cfg, component, binaryPath, Base debToReadPath]
               @ [nl] @ ''Size: '' @ Sprint size)
              hashes)) (\<lambda>scanpackagesOutput.
     bnd (fprint sys packagesFilePath (scanpackagesOutput @ [nl])) (\<lambda>_.
     fprint sys packagesFilePath [nl]))))"

text \<open>The second loop of \<^verbatim>\<open>main\<close> (lines 248 to 288).\<close>

definition packagesIndex :: "'w sys \<Rightarrow> config \<Rightarrow> string \<Rightarrow> string \<Rightarrow> ('w, unit) prog" where
  "packagesIndex sys cfg component archDirPath =
     bnd (index (splitOn (CHR ''-'') (Base archDirPath)) 1) (\<lambda>arch.
     bnd (println (''Creating package file for '' @ component @ '' and '' @ arch)) (\<lambda>_.
     let packagesFilePath = Join [archDirPath, ''Packages''];
         packagesxzFilePath = packagesFilePath @ ''.xz'';
         binaryPath = ''binary-'' @ arch in
     bnd (act (Create packagesFilePath) (os_create sys packagesFilePath)) (\<lambda>ok.
     bnd (if \<not> ok
          then fatal (''Error creating Packages file '' @ [CHR 0x27] @ packagesFilePath
                      @ [CHR 0x27, nl])
          else ret ()) (\<lambda>_.
     bnd (observe (glob sys (Join [archDirPath, ''*.deb'']))) (\<lambda>debs.
     bnd (foreach debs (packagesEntry sys cfg component binaryPath packagesFilePath)) (\<lambda>_.
     compressXz sys packagesFilePath packagesxzFilePath))))))"

definition generateIndexes :: "'w sys \<Rightarrow> config \<Rightarrow> ('w, unit) prog" where
  "generateIndexes sys cfg =
     (\<lambda>s. foreach (COMPONENTS s) (\<lambda>component.
        bnd (observe (glob sys (Join [distributionPath cfg, component, ''binary-*'']))) (\<lambda>dirs.
        bnd (foreach dirs (packagesIndex sys cfg component)) (\<lambda>_.
        bnd (observe (glob sys (Join [distributionPath cfg, component, ''Contents-*'']))) (\<lambda>cs.
        foreach cs (\<lambda>contentsFile. compressXz sys contentsFile (contentsFile @ ''.xz'')))))) s)"

text \<open>The digest tables of the Release file (lines 293 to 318).  \<^verbatim>\<open>%s\<close> prints the digest bytes
  as they are.\<close>

definition releaseRow :: "'w sys \<Rightarrow> string \<Rightarrow> string \<Rightarrow> string \<Rightarrow> string \<Rightarrow> ('w, unit) prog" where
  "releaseRow sys releaseFilePath hashType filePath shownPath =
     bnd (observe (hashFile sys hashType filePath)) (\<lambda>h.
     bnd (observe (fileSize sys filePath)) (\<lambda>size.
     fprint sys releaseFilePath ('' '' @ h @ '' '' @ Sprint size @ '' '' @ shownPath @ [nl])))"

text \<open>For one digest algorithm and one component: the rows of the \<^verbatim>\<open>Packages\<close> files (lines 302
  to 310), then the rows of the \<^verbatim>\<open>Contents-*\<close> files (lines 311 to 316).\<close>

definition releasePackagesRows ::
  "'w sys \<Rightarrow> config \<Rightarrow> string \<Rightarrow> string \<Rightarrow> string \<Rightarrow> ('w, unit) prog" where
  "releasePackagesRows sys cfg releaseFilePath hashType component =
     bnd (observe (glob sys (Join [distributionPath cfg, component, ''binary-*'']))) (\<lambda>dirs.
     foreach dirs (\<lambda>archDirPath.
       foreach [''Packages'', ''Packages.xz''] (\<lambda>f.
         releaseRow sys releaseFilePath hashType (Join [archDirPath, f])
           (Join [component, Base archDirPath, f]))))"

definition releaseContentsRows ::
  "'w sys \<Rightarrow> config \<Rightarrow> string \<Rightarrow> string \<Rightarrow> string \<Rightarrow> ('w, unit) prog" where
  "releaseContentsRows sys cfg releaseFilePath hashType component =
     bnd (observe (glob sys (Join [distributionPath cfg, component, ''Contents-*'']))) (\<lambda>cs.
     foreach cs (\<lambda>contentsFile.
       releaseRow sys releaseFilePath hashType contentsFile contentsFile))"

definition writeReleaseHashes :: "'w sys \<Rightarrow> config \<Rightarrow> string \<Rightarrow> ('w, unit) prog" where
  "writeReleaseHashes sys cfg releaseFilePath =
     foreach hashes (\<lambda>hashType.
       bnd (fprint sys releaseFilePath (hashString hashType @ '':'' @ [nl])) (\<lambda>_.
       (\<lambda>s. foreach (COMPONENTS s) (\<lambda>component.
          bnd (releasePackagesRows sys cfg releaseFilePath hashType component) (\<lambda>_.
          releaseContentsRows sys cfg releaseFilePath hashType component)) s)))"

text \<open>Signing and the closing messages (lines 320 to 337).  The result of \<^verbatim>\<open>Run()\<close> is dropped.\<close>

definition signAndReport :: "'w sys \<Rightarrow> config \<Rightarrow> string \<Rightarrow> ('w, unit) prog" where
  "signAndReport sys cfg releaseFilePath =
     bnd (if signRepo cfg
          then bnd (println ''Signing with gpg...'') (\<lambda>_.
               bnd (act (Gpg [''--yes'', ''--pinentry-mode'', ''loopback'', ''--digest-algo'', ''SHA256'',
                              ''--clearsign'', ''-o'', Join [distributionPath cfg, ''InRelease''],
                              releaseFilePath])
                      (run_gpg sys [''--yes'', ''--pinentry-mode'', ''loopback'', ''--digest-algo'',
                                    ''SHA256'', ''--clearsign'', ''-o'',
                                    Join [distributionPath cfg, ''InRelease''], releaseFilePath]))
                 (\<lambda>_. ret ()))
          else ret ()) (\<lambda>_.
     bnd (println ''Done!'') (\<lambda>_.
     bnd (println []) (\<lambda>_.
     bnd (println (''Make the '' @ outputPath cfg @ '' directory accessible at $REPO_URL'')) (\<lambda>_.
     bnd (println []) (\<lambda>_.
     bnd (println ''Users can then access the repo by adding a file at'') (\<lambda>_.
     bnd (println ''   $PREFIX/etc/apt/sources.list.d'') (\<lambda>_.
     bnd (println ''containing:'') (\<lambda>_.
     bnd (\<lambda>s. foreach (COMPONENTS s) (\<lambda>component.
            println (''   deb [trusted=yes] $REPO_URL '' @ distribution cfg @ '' '' @ component)) s) (\<lambda>_.
     bnd (println []) (\<lambda>_.
     println ''[trusted=yes] is not needed if the repo has been signed with a gpg key''))))))))))"

definition main :: "'w sys \<Rightarrow> config \<Rightarrow> ('w, unit) prog" where
  "main sys cfg =
     bnd (if inputPath cfg = [] \<or> outputPath cfg = []
          then fatal (usageText cfg)
          else ret ()) (\<lambda>_.
     bnd (observe (os_stat sys (inputPath cfg))) (\<lambda>st.
     bnd (if st = StatNotExist
          then fatal ([CHR 0x27] @ inputPath cfg @ [CHR 0x27] @ '' does not exist'' @ [nl])
          else ret ()) (\<lambda>_.
     bnd (observe (path_glob sys (Join [inputPath cfg, ''*.deb'']))) (\<lambda>g.
     bnd (case g of
            None \<Rightarrow> fatal (''Error globbing .deb files in '' @ [CHR 0x27] @ inputPath cfg
                            @ [CHR 0x27, nl])
          | Some ms \<Rightarrow> ret ms) (\<lambda>debsInPath.
     bnd (observe (path_glob sys (Join [inputPath cfg, ''*/*.deb'']))) (\<lambda>g.
     bnd (case g of
            None \<Rightarrow> fatal (''Error globbing .deb files in subdirectories of '' @ [CHR 0x27]
                            @ inputPath cfg @ [CHR 0x27, nl])
          | Some ms \<Rightarrow> ret ms) (\<lambda>debsInSubPath.
     bnd (if debsInPath @ debsInSubPath = []
          then fatal (''No .deb file found in '' @ [CHR 0x27] @ inputPath cfg @ [CHR 0x27, nl])
          else ret ()) (\<lambda>_.
     bnd (foreach (debsInPath @ debsInSubPath) (placePackage sys cfg)) (\<lambda>_.
     let releaseFilePath = Join [distributionPath cfg, ''Release''] in
     bnd (act (Create releaseFilePath) (os_create sys releaseFilePath)) (\<lambda>ok.
     bnd (if \<not> ok then fatal (''Error creating Release file'' @ [nl]) else ret ()) (\<lambda>_.
     bnd (writeReleaseHeader sys cfg releaseFilePath) (\<lambda>_.
     bnd (generateIndexes sys cfg) (\<lambda>_.
     bnd (observe (filterDirs sys (distributionPath cfg))) (\<lambda>dirs.
     bnd (\<lambda>s. (Inr (), s\<lparr>COMPONENTS := dirs\<rparr>)) (\<lambda>_.
     bnd (\<lambda>s. fprint sys releaseFilePath (''Components: '' @ joinWith '' '' (COMPONENTS s) @ [nl]) s) (\<lambda>_.
     bnd (writeReleaseHashes sys cfg releaseFilePath) (\<lambda>_.
     signAndReport sys cfg releaseFilePath)))))))))))))))))"

text \<open>A run starts with no event, \<^verbatim>\<open>COMPONENTS\<close> \<^verbatim>\<open>nil\<close> and \<^verbatim>\<open>encounteredArches\<close> empty.\<close>

definition initial :: "'w \<Rightarrow> 'w state" where
  "initial w = \<lparr>world = w, trace = [], COMPONENTS = [], encounteredArches = {}\<rparr>"

section \<open>What a piece of the program may do\<close>

text \<open>
  \<open>steps Q m\<close>: whatever \<open>m\<close> answers, it leaves \<^verbatim>\<open>COMPONENTS\<close> alone and only adds events
  that satisfy \<open>Q\<close> to the trace.
\<close>

definition steps :: "(event \<Rightarrow> bool) \<Rightarrow> ('w, 'a) prog \<Rightarrow> bool" where
  "steps Q m = (\<forall>s r s'. m s = (r, s') \<longrightarrow>
      COMPONENTS s' = COMPONENTS s \<and> (\<exists>evs. trace s' = trace s @ evs \<and> list_all Q evs))"

section \<open>A small world to run the program in\<close>

text \<open>
  For the concrete runs below the world is the list of the paths that exist; a directory exists as
  soon as something below it does.  \<open>demoShell\<close> answers the three commands the program runs
  (\<^verbatim>\<open>ar t\<close>, the extraction of \<^verbatim>\<open>./control\<close>, the listing of \<^verbatim>\<open>data.tar.xz\<close>); \<open>control\<close> gives
  the control text of a package by its file name.  A hard link fails when its target exists.  The
  stand-in for the digest of a file is the name of the algorithm; \<open>candidates\<close> lists, for a glob
  pattern, the paths that match it if they exist.
\<close>

definition present :: "string list \<Rightarrow> string \<Rightarrow> bool" where
  "present w p = list_ex (\<lambda>q. q = p \<or> prefix (p @ ''/'') q) w"

definition demoShell :: "(string \<Rightarrow> string option) \<Rightarrow> string \<Rightarrow> string option" where
  "demoShell control cmd =
     (if prefix ''ar t '' cmd
      then Some (''debian-binary'' @ [nl] @ ''control.tar.xz'' @ [nl] @ ''data.tar.xz'' @ [nl])
      else if suffix '' control.tar.xz | tar -O -J -xf - ./control'' cmd
      then control (Base (takeWhile (\<lambda>c. c \<noteq> CHR '' '') (drop 5 cmd)))
      else if suffix '' data.tar.xz | tar -tJ'' cmd
      then Some (''./'' @ [nl] @ ''./usr/'' @ [nl] @ ''./usr/bin/tool'' @ [nl])
      else None)"

definition demo :: "(string \<Rightarrow> string option) \<Rightarrow> (string \<Rightarrow> string list) \<Rightarrow> string list sys" where
  "demo control candidates =
     \<lparr>sh_output = (\<lambda>cmd w. (demoShell control cmd, w)),
      os_stat = (\<lambda>p w. if present w p then StatOk 1024 else StatNotExist),
      os_mkdir_all = (\<lambda>p w. (True, w @ [p])),
      os_remove_all = (\<lambda>p w. (True, filter (\<lambda>q. q \<noteq> p \<and> \<not> prefix (p @ ''/'') q) w)),
      os_link = (\<lambda>src dst w. if present w src \<and> \<not> present w dst then (True, w @ [dst]) else (False, w)),
      os_open = (\<lambda>p w. present w p),
      os_create = (\<lambda>p w. (True, if present w p then w else w @ [p])),
      io_copy = (\<lambda>dst src w. (True, w)),
      file_sync = (\<lambda>p w. (True, w)),
      os_open_append = (\<lambda>p w. (True, if present w p then w else w @ [p])),
      file_write = (\<lambda>p d w. (True, w)),
      path_glob = (\<lambda>pattern w. Some (filter (present w) (candidates pattern))),
      read_dir = (\<lambda>p w. []),
      read_all = (\<lambda>p w. p),
      digest = (\<lambda>hashType bytes. hashType),
      xz_new_writer = (\<lambda>p w. None),
      xz_copy = (\<lambda>dst src w. (None, if present w dst then w else w @ [dst])),
      run_gpg = (\<lambda>args w. (False, w)),
      time_now = (\<lambda>w. ''Thu, 01 Jan 1970 00:00:00 UTC'')\<rparr>"

definition demoControl :: "string \<Rightarrow> string option" where
  "demoControl name =
     (if name = ''foo_1.0_all.deb''
      then Some (''Package: foo'' @ [nl] @ ''Version: 1.0'' @ [nl] @ ''Architecture: all'' @ [nl])
      else if name = ''bar_1.0_arm.deb''
      then Some (''Package: bar'' @ [nl] @ ''Version: 1.0'' @ [nl] @ ''Architecture: arm'' @ [nl])
      else if name = ''x86_1.0_amd64.deb''
      then Some (''Package: x86'' @ [nl] @ ''Version: 1.0'' @ [nl] @ ''Architecture: amd64'' @ [nl])
      else if name = ''anon_1.0_all.deb''
      then Some (''Version: 1.0'' @ [nl] @ ''Architecture: all'' @ [nl])
      else None)"

definition demoConfig :: "string \<Rightarrow> config" where
  "demoConfig input =
     \<lparr>inputPath = input, outputPath = ''out'', distribution = ''termux'',
      defaultComponent = ''extras'', useHardLinks = False, signRepo = False, usageText = []\<rparr>"

text \<open>
  \<open>vanishing deb\<close> is the same world with a second process in it that deletes the file \<open>deb\<close>
  right after its control text has been extracted.
\<close>

definition vanishing :: "string \<Rightarrow> string list sys" where
  "vanishing deb =
     (demo demoControl (\<lambda>pattern. []))
       \<lparr>sh_output := (\<lambda>cmd w. (demoShell demoControl cmd,
                                if suffix ''./control'' cmd then filter (\<lambda>q. q \<noteq> deb) w else w))\<rparr>"

definition releaseCandidates :: "string \<Rightarrow> string list" where
  "releaseCandidates pattern =
     (if pattern = ''out/dists/termux/extras/binary-*''
      then [''out/dists/termux/extras/binary-all'']
      else if pattern = ''out/dists/termux/extras/Contents-*''
      then [''out/dists/termux/extras/Contents-all'', ''out/dists/termux/extras/Contents-all.xz'']
      else [])"

text \<open>The world used most below, a package as \<^verbatim>\<open>addDeb\<close> places it, and what an earlier run
  left in the output tree.\<close>

definition demoSys :: "string list sys" where
  "demoSys = demo demoControl (\<lambda>pattern. [])"

definition placedFoo :: string where
  "placedFoo = ''out/dists/termux/extras/binary-all/foo_1.0_all.deb''"

definition oldTree :: "string list" where
  "oldTree = [''out/dists/termux/extras/binary-all/old_1.0_all.deb'']"

definition releaseTree :: "string list" where
  "releaseTree =
     [''out/dists/termux/extras/binary-all/Packages'',
      ''out/dists/termux/extras/binary-all/Packages.xz'',
      ''out/dists/termux/extras/Contents-all'',
      ''out/dists/termux/extras/Contents-all.xz'']"

section \<open>Helper lemmas\<close>

lemma contains_iff: "contains xs x = (x \<in> set xs)"
  by (induction xs) auto

lemma steps_ret: "steps Q (ret x)"
  by (simp add: steps_def ret_def)

lemma steps_osExit: "steps Q (osExit n)"
  by (simp add: steps_def osExit_def)

lemma steps_panic: "steps Q (panic msg)"
  by (simp add: steps_def panic_def)

lemma steps_observe: "steps Q (observe f)"
  by (simp add: steps_def observe_def)

lemma steps_emit: "Q e \<Longrightarrow> steps Q (emit e)"
  by (simp add: steps_def emit_def)

lemma steps_act: "Q e \<Longrightarrow> steps Q (act e f)"
  by (auto simp add: steps_def act_def split: prod.splits)

lemma steps_bnd:
  assumes "steps Q m" and "\<And>x. steps Q (k x)"
  shows "steps Q (bnd m k)"
  unfolding steps_def
proof (intro allI impI)
  fix s r s'
  assume run: "bnd m k s = (r, s')"
  obtain r1 s1 where m: "m s = (r1, s1)" by (cases "m s")
  from assms(1) m obtain evs1 where
    c1: "COMPONENTS s1 = COMPONENTS s" and t1: "trace s1 = trace s @ evs1" and q1: "list_all Q evs1"
    unfolding steps_def by blast
  show "COMPONENTS s' = COMPONENTS s \<and> (\<exists>evs. trace s' = trace s @ evs \<and> list_all Q evs)"
  proof (cases r1)
    case (Inl e)
    with run m have "s' = s1" by (simp add: bnd_def)
    with c1 t1 q1 show ?thesis by blast
  next
    case (Inr x)
    with run m have "k x s1 = (r, s')" by (simp add: bnd_def)
    with assms(2) obtain evs2 where
      "COMPONENTS s' = COMPONENTS s1" "trace s' = trace s1 @ evs2" "list_all Q evs2"
      unfolding steps_def by blast
    with c1 t1 q1 have "COMPONENTS s' = COMPONENTS s \<and> trace s' = trace s @ (evs1 @ evs2) \<and> list_all Q (evs1 @ evs2)"
      by simp
    then show ?thesis by blast
  qed
qed

lemma steps_foreach:
  assumes "\<And>x. steps Q (body x)"
  shows "steps Q (foreach xs body)"
  by (induction xs) (auto intro: steps_ret steps_bnd assms)

lemma steps_fatal: "Q (Stderr msg) \<Longrightarrow> steps Q (fatal msg)"
  by (simp add: fatal_def steps_bnd steps_emit steps_osExit)

lemma steps_index: "steps Q (index xs i)"
  by (simp add: index_def steps_ret steps_panic)

lemma steps_controlFileContents:
  assumes "\<And>c. Q (Exec c)" and "\<And>m. Q (Stderr m)"
  shows "steps Q (controlFileContents sys debfile)"
  unfolding controlFileContents_def runShellCommand_def
  by (auto intro!: steps_bnd steps_act steps_fatal steps_ret assms split: option.splits)

lemma steps_listPackageFiles:
  assumes "\<And>c. Q (Exec c)" and "\<And>m. Q (Stderr m)"
  shows "steps Q (listPackageFiles sys debfile)"
  unfolding listPackageFiles_def runShellCommand_def
  by (auto intro!: steps_bnd steps_act steps_fatal steps_ret assms split: option.splits)

lemma steps_copyFile:
  assumes "\<And>p. Q (Create p)" and "\<And>p q. Q (Copy p q)" and "\<And>p. Q (Sync p)"
  shows "steps Q (copyFile sys src dst)"
  unfolding copyFile_def
  by (auto intro!: steps_bnd steps_act steps_observe steps_ret assms)

lemma steps_modify_arches:
  "steps Q (\<lambda>s. (Inr (), s\<lparr>encounteredArches := f s\<rparr>))"
  by (simp add: steps_def)

lemma steps_addDeb: "steps (\<lambda>e. \<not> isRemoveAll e) (addDeb sys cfg deb component hl)"
  unfolding addDeb_def Let_def
  by (intro steps_bnd steps_controlFileContents steps_index steps_modify_arches steps_observe
        steps_foreach steps_listPackageFiles)
     (auto intro!: steps_bnd steps_act steps_fatal steps_ret steps_emit steps_copyFile)


lemma FindStringSubmatch_length: "FindStringSubmatch lit s = Some m \<Longrightarrow> length m = 2"
  by (auto simp: FindStringSubmatch_def split: option.splits)

lemma controlFileContents_abort:
  "controlFileContents sys deb s = (Inl e, s1) \<Longrightarrow> e = Exit 1"
  by (auto simp: controlFileContents_def runShellCommand_def bnd_def act_def fatal_def emit_def
        osExit_def ret_def split: prod.splits option.splits if_splits sum.splits)

lemma steps_trace:
  assumes "steps Q m" and "m s = (r, s')"
  shows "list_all Q (drop (length (trace s)) (trace s'))"
  using assms unfolding steps_def by fastforce

lemma steps_trace_append:
  assumes "steps Q m" and "m s = (r, s')"
  shows "trace s' = trace s @ drop (length (trace s)) (trace s')"
  using assms unfolding steps_def by fastforce

lemma filter_empty_if_none: "list_all (\<lambda>e. \<not> P e) xs \<Longrightarrow> filter P xs = []"
  by (induction xs) auto

lemma addDeb_unsupported_arch:
  assumes ctl: "controlFileContents sys deb s = (Inr ctl, s1)"
    and arch: "FindStringSubmatch ''Architecture: '' ctl = Some [whole, arch]"
    and unsupported: "arch \<notin> set supportedArches"
  shows "\<exists>e s'. addDeb sys cfg deb component hl s = (Inl e, s')
           \<and> exitCode e \<noteq> 0
           \<and> filter writesFile (drop (length (trace s)) (trace s')) = []"
proof -
  have quiet: "steps (\<lambda>e. \<not> writesFile e) (controlFileContents sys deb)"
    by (rule steps_controlFileContents) simp_all
  from steps_trace_append [OF quiet ctl] obtain evs where
    t1: "trace s1 = trace s @ evs" and evs: "evs = drop (length (trace s)) (trace s1)" by blast
  from steps_trace [OF quiet ctl] evs have nowrite: "filter writesFile evs = []"
    by (simp add: filter_empty_if_none)
  show ?thesis
  proof (cases "FindStringSubmatch ''Package: '' ctl")
    case None
    then have "addDeb sys cfg deb component hl s
        = (Inl (Panic (''runtime error: index out of range [1] with length 0'')), s1)"
      by (simp add: addDeb_def bnd_def ctl index_def panic_def Sprint.simps digitChar_def)
    with t1 nowrite show ?thesis by simp
  next
    case (Some m)
    then have "length m = 2" by (rule FindStringSubmatch_length)
    with Some arch unsupported have "addDeb sys cfg deb component hl s
        = (Inl (Exit 1), s1\<lparr>trace := trace s1 @ [Stderr (''Unsupported arch '' @ [CHR 0x27] @ arch
              @ [CHR 0x27] @ '' in '' @ [CHR 0x27] @ Base deb @ [CHR 0x27, nl])]\<rparr>)"
      by (simp add: addDeb_def bnd_def ctl index_def ret_def contains_iff fatal_def emit_def osExit_def)
    with t1 nowrite show ?thesis by simp
  qed
qed

lemma addDeb_missing_field:
  assumes ctl: "controlFileContents sys deb s = (Inr ctl, s1)"
    and missing: "FindStringSubmatch ''Package: '' ctl = None
                  \<or> FindStringSubmatch ''Architecture: '' ctl = None"
  shows "addDeb sys cfg deb component hl s
           = (Inl (Panic ''runtime error: index out of range [1] with length 0''), s1)
         \<and> filter isStderr (drop (length (trace s)) (trace s1)) = []"
proof -
  have "addDeb sys cfg deb component hl s
           = (Inl (Panic ''runtime error: index out of range [1] with length 0''), s1)"
  proof (cases "FindStringSubmatch ''Package: '' ctl")
    case None
    then show ?thesis
      by (simp add: addDeb_def bnd_def ctl index_def panic_def Sprint.simps digitChar_def)
  next
    case (Some m)
    then have "length m = 2" by (rule FindStringSubmatch_length)
    with Some missing show ?thesis
      by (simp add: addDeb_def bnd_def ctl index_def panic_def ret_def Sprint.simps digitChar_def)
  qed
  moreover have "filter isStderr (drop (length (trace s)) (trace s1)) = []"
    using ctl
    by (auto simp: controlFileContents_def runShellCommand_def bnd_def act_def fatal_def emit_def
        osExit_def ret_def split: prod.splits option.splits if_splits sum.splits)
  ultimately show ?thesis by simp
qed

lemma registerComponent_eq:
  "registerComponent sys cfg c s =
     (Inr (),
      if contains (COMPONENTS s) c then s
      else if statOk (os_stat sys (Join [distributionPath cfg, c]) (world s))
      then s\<lparr>COMPONENTS := COMPONENTS s @ [c],
             world := snd (os_remove_all sys (Join [distributionPath cfg, c]) (world s)),
             trace := trace s @ [RemoveAll (Join [distributionPath cfg, c])]\<rparr>
      else s\<lparr>COMPONENTS := COMPONENTS s @ [c]\<rparr>)"
  by (simp add: registerComponent_def bnd_def observe_def act_def ret_def split: prod.splits)

lemma placePackage_unfold:
  "placePackage sys cfg d s =
     addDeb sys cfg d (componentOf cfg d) (useHardLinks cfg)
       (snd (registerComponent sys cfg (componentOf cfg d) s))"
  by (simp add: placePackage_def bnd_def registerComponent_eq)

lemma addDeb_COMPONENTS:
  "addDeb sys cfg d c hl s = (r, s') \<Longrightarrow> COMPONENTS s' = COMPONENTS s"
  using steps_addDeb [of sys cfg d c hl] unfolding steps_def by blast

lemma placePackage_COMPONENTS:
  assumes "placePackage sys cfg d s = (r, s')"
  shows "set (COMPONENTS s') = insert (componentOf cfg d) (set (COMPONENTS s))"
proof -
  from assms have "COMPONENTS s' = COMPONENTS (snd (registerComponent sys cfg (componentOf cfg d) s))"
    by (simp add: placePackage_unfold addDeb_COMPONENTS)
  then show ?thesis
    by (auto simp: registerComponent_eq contains_iff)
qed

lemma foreach_placePackage_COMPONENTS:
  "foreach ds (placePackage sys cfg) s = (Inr (), s')
     \<Longrightarrow> set (COMPONENTS s') = set (COMPONENTS s) \<union> componentOf cfg ` set ds"
proof (induction ds arbitrary: s)
  case Nil
  then show ?case by (simp add: ret_def)
next
  case (Cons d ds)
  obtain r1 s1 where step: "placePackage sys cfg d s = (r1, s1)"
    by (cases "placePackage sys cfg d s")
  with Cons.prems obtain u where "r1 = Inr u" and rest: "foreach ds (placePackage sys cfg) s1 = (Inr (), s')"
    by (cases r1) (auto simp: bnd_def)
  from Cons.IH [OF rest] placePackage_COMPONENTS [OF step] show ?case by auto
qed

lemma foreach_append:
  "foreach (xs @ ys) body s =
     (case foreach xs body s of
        (Inl e, s1) \<Rightarrow> (Inl e, s1)
      | (Inr u, s1) \<Rightarrow> foreach ys body s1)"
  by (induction xs arbitrary: s) (auto simp: ret_def bnd_def split: prod.splits sum.splits)

lemma fprint_eq:
  "fprint sys path text s =
     (Inr (), s\<lparr>world := snd (file_write sys path text (world s)), trace := trace s @ [Write path text]\<rparr>)"
  by (simp add: fprint_def bnd_def act_def ret_def split: prod.splits)

lemma println_eq: "println text s = (Inr (), s\<lparr>trace := trace s @ [Stdout (text @ [nl])]\<rparr>)"
  by (simp add: println_def emit_def)

lemma foreach_println:
  "foreach xs (\<lambda>x. println (f x)) s = (Inr (), s\<lparr>trace := trace s @ map (\<lambda>x. Stdout (f x @ [nl])) xs\<rparr>)"
  by (induction xs arbitrary: s) (simp_all add: ret_def bnd_def println_eq)

lemma hashes_fold:
  "foldl f a hashes = f (f (f (f a ''md5'') ''sha1'') ''sha256'') ''sha512''"
  by (simp add: hashes_def)

section \<open>The claims\<close>

text \<open>
  C1 says that a package directly in the input directory gets the default component, with or
  without a separator at the end of \<^verbatim>\<open>--input\<close>.  With \<^verbatim>\<open>--input debs\<close> the pattern of the first
  glob is \<^verbatim>\<open>debs/*.deb\<close>, the package \<^verbatim>\<open>debs/foo_1.0_all.deb\<close> keeps its leading separator after
  \<^verbatim>\<open>strings.TrimPrefix\<close>, and its component is \<^verbatim>\<open>/\<close>, not \<^verbatim>\<open>extras\<close>: the whole distribution
  directory is removed and the package is placed in \<^verbatim>\<open>out/dists/termux/binary-all\<close>.
\<close>

theorem root_package_without_separator_misses_default:
  "Join [inputPath (demoConfig ''debs''), ''*.deb''] = ''debs/*.deb''
   \<and> componentOf (demoConfig ''debs'') ''debs/foo_1.0_all.deb'' = ''/''
   \<and> defaultComponent (demoConfig ''debs'') = ''extras''
   \<and> fst (placePackage demoSys (demoConfig ''debs'') ''debs/foo_1.0_all.deb''
             (initial (''debs/foo_1.0_all.deb'' # oldTree))) = Inr ()
   \<and> filter (\<lambda>e. writesFile e \<or> isRemoveAll e)
        (trace (snd (placePackage demoSys (demoConfig ''debs'') ''debs/foo_1.0_all.deb''
                       (initial (''debs/foo_1.0_all.deb'' # oldTree)))))
       = [RemoveAll ''out/dists/termux'',
          MkdirAll ''out/dists/termux/binary-all'',
          Create ''out/dists/termux/binary-all/foo_1.0_all.deb'',
          Copy ''out/dists/termux/binary-all/foo_1.0_all.deb'' ''debs/foo_1.0_all.deb'',
          Sync ''out/dists/termux/binary-all/foo_1.0_all.deb'',
          OpenAppend ''out/dists/termux/Contents-all'',
          Write ''out/dists/termux/Contents-all'' (padRight 80 ''usr/bin/tool'' @ '' foo'' @ [nl])]"
  by code_simp

text \<open>
  C2 says that every row of a digest table gives the path relative to the distribution root.
  The rows of the \<^verbatim>\<open>Packages\<close> files do; the rows of the \<^verbatim>\<open>Contents-*\<close> files give the path that
  the glob returned, which starts with the distribution root \<^verbatim>\<open>out/dists/termux\<close> itself.
\<close>

theorem release_contents_rows_show_full_path:
  "distributionPath (demoConfig ''debs/'') = ''out/dists/termux''
   \<and> trace (snd (releasePackagesRows (demo demoControl releaseCandidates) (demoConfig ''debs/'')
                    ''out/dists/termux/Release'' ''md5'' ''extras'' (initial releaseTree)))
     = [Write ''out/dists/termux/Release'' ('' md5 1024 extras/binary-all/Packages'' @ [nl]),
        Write ''out/dists/termux/Release'' ('' md5 1024 extras/binary-all/Packages.xz'' @ [nl])]
   \<and> trace (snd (releaseContentsRows (demo demoControl releaseCandidates) (demoConfig ''debs/'')
                    ''out/dists/termux/Release'' ''md5'' ''extras'' (initial releaseTree)))
     = [Write ''out/dists/termux/Release'' ('' md5 1024 out/dists/termux/extras/Contents-all'' @ [nl]),
        Write ''out/dists/termux/Release'' ('' md5 1024 out/dists/termux/extras/Contents-all.xz'' @ [nl])]"
  by code_simp

text \<open>
  C3 as the specification words it fails.  The package file is deleted right after its control
  text has been read: \<^verbatim>\<open>os.Stat\<close> and \<^verbatim>\<open>os.Open\<close> fail on it, the process goes on, and the entry is
  written with \<^verbatim>\<open>Size: 0\<close> and four empty digests.
\<close>

theorem packagesEntry_vanished_file_not_fatal:
  "world (snd (controlFileContents (vanishing placedFoo) placedFoo (initial [placedFoo]))) = []
   \<and> os_stat (vanishing placedFoo) placedFoo [] = StatNotExist
   \<and> \<not> os_open (vanishing placedFoo) placedFoo []
   \<and> fst (packagesEntry (vanishing placedFoo) (demoConfig ''debs/'') ''extras'' ''binary-all''
             ''out/dists/termux/extras/binary-all/Packages'' placedFoo (initial [placedFoo])) = Inr ()
   \<and> filter writesFile
       (trace (snd (packagesEntry (vanishing placedFoo) (demoConfig ''debs/'') ''extras'' ''binary-all''
                      ''out/dists/termux/extras/binary-all/Packages'' placedFoo (initial [placedFoo]))))
     = [Write ''out/dists/termux/extras/binary-all/Packages''
          (''Package: foo'' @ [nl] @ ''Version: 1.0'' @ [nl] @ ''Architecture: all'' @ [nl]
           @ [nl] @ ''Filename: dists/termux/extras/binary-all/foo_1.0_all.deb''
           @ [nl] @ ''Size: 0''
           @ [nl] @ ''MD5Sum: '' @ [nl] @ ''SHA1: '' @ [nl] @ ''SHA256: '' @ [nl] @ ''SHA512: '' @ [nl]),
        Write ''out/dists/termux/extras/binary-all/Packages'' [nl]]"
  by code_simp

text \<open>
  C3, as the code has it.  During package-index generation the one failure that ends the process
  for a package file is the failure to extract its control text (exit status 1).  In every other
  case the entry is written to the Packages file: its \<^verbatim>\<open>Size\<close> is what \<^verbatim>\<open>os.Stat\<close> reports, and
  \<^verbatim>\<open>0\<close> when \<^verbatim>\<open>os.Stat\<close> fails; each digest is the hexadecimal hash of the file, and empty when
  the file cannot be opened.
\<close>

theorem packagesEntry_outcome:
  "(case controlFileContents sys deb s of
      (Inl e, s1) \<Rightarrow> packagesEntry sys cfg component binaryPath packagesFilePath deb s = (Inl (Exit 1), s1)
    | (Inr contents, s1) \<Rightarrow>
        fst (packagesEntry sys cfg component binaryPath packagesFilePath deb s) = Inr ()
        \<and> drop (length (trace s1))
            (trace (snd (packagesEntry sys cfg component binaryPath packagesFilePath deb s)))
          = [Write packagesFilePath
               (contents
                @ [nl] @ ''Filename: ''
                @ Join [''dists'', distribution cfg, component, binaryPath, Base deb]
                @ [nl] @ ''Size: '' @ Sprint (fileSize sys deb (world s1))
                @ [nl] @ ''MD5Sum: '' @ hex (hashFile sys ''md5'' deb (world s1))
                @ [nl] @ ''SHA1: '' @ hex (hashFile sys ''sha1'' deb (world s1))
                @ [nl] @ ''SHA256: '' @ hex (hashFile sys ''sha256'' deb (world s1))
                @ [nl] @ ''SHA512: '' @ hex (hashFile sys ''sha512'' deb (world s1))
                @ [nl]),
             Write packagesFilePath [nl]]
        \<and> (\<not> statOk (os_stat sys deb (world s1)) \<longrightarrow> Sprint (fileSize sys deb (world s1)) = ''0'')
        \<and> (\<not> os_open sys deb (world s1) \<longrightarrow> (\<forall>hashType. hex (hashFile sys hashType deb (world s1)) = [])))"
proof (cases "controlFileContents sys deb s")
  case (Pair r s1)
  show ?thesis
  proof (cases r)
    case (Inl e)
    with Pair controlFileContents_abort [of sys deb s e s1] show ?thesis
      by (simp add: packagesEntry_def bnd_def)
  next
    case (Inr contents)
    have labels: "hashString ''md5'' = ''MD5Sum''" "hashString ''sha1'' = ''SHA1''"
      "hashString ''sha256'' = ''SHA256''" "hashString ''sha512'' = ''SHA512''"
      by code_simp+
    have size0: "\<not> statOk (os_stat sys deb (world s1)) \<Longrightarrow> Sprint (fileSize sys deb (world s1)) = ''0''"
      by (cases "os_stat sys deb (world s1)") (simp_all add: fileSize_def Sprint.simps digitChar_def)
    have nodigest: "\<not> os_open sys deb (world s1) \<Longrightarrow> hex (hashFile sys hashType deb (world s1)) = []"
      for hashType
      by (simp add: hashFile_def hex_def)
    from Pair Inr size0 nodigest show ?thesis
      by (simp add: packagesEntry_def bnd_def observe_def fprint_eq hashes_fold labels)
  qed
qed

text \<open>C3, an instance: the file that vanishes after the extraction of its control text.\<close>

theorem packagesEntry_outcome_witness:
  "fst (controlFileContents (vanishing placedFoo) placedFoo (initial [placedFoo]))
     = Inr (''Package: foo'' @ [nl] @ ''Version: 1.0'' @ [nl] @ ''Architecture: all'' @ [nl])
   \<and> \<not> statOk (os_stat (vanishing placedFoo) placedFoo
                 (world (snd (controlFileContents (vanishing placedFoo) placedFoo (initial [placedFoo])))))
   \<and> \<not> os_open (vanishing placedFoo) placedFoo
                 (world (snd (controlFileContents (vanishing placedFoo) placedFoo (initial [placedFoo]))))
   \<and> fst (packagesEntry (vanishing placedFoo) (demoConfig ''debs/'') ''extras'' ''binary-all''
             ''out/dists/termux/extras/binary-all/Packages'' placedFoo (initial [placedFoo])) = Inr ()
   \<and> Sprint (fileSize (vanishing placedFoo) placedFoo
               (world (snd (controlFileContents (vanishing placedFoo) placedFoo (initial [placedFoo])))))
     = ''0''
   \<and> hex (hashFile (vanishing placedFoo) ''sha256'' placedFoo
            (world (snd (controlFileContents (vanishing placedFoo) placedFoo (initial [placedFoo])))))
     = []"
proof -
  let ?X = "controlFileContents (vanishing placedFoo) placedFoo (initial [placedFoo])"
  have ctl: "fst ?X = Inr (''Package: foo'' @ [nl] @ ''Version: 1.0'' @ [nl] @ ''Architecture: all'' @ [nl])"
    by code_simp
  have gone: "world (snd ?X) = []"
    by code_simp
  have nostat: "\<not> statOk (os_stat (vanishing placedFoo) placedFoo [])"
    by code_simp
  have noopen: "\<not> os_open (vanishing placedFoo) placedFoo []"
    by code_simp
  from packagesEntry_outcome [where sys = "vanishing placedFoo" and deb = placedFoo
      and s = "initial [placedFoo]" and cfg = "demoConfig ''debs/''" and component = "''extras''"
      and binaryPath = "''binary-all''"
      and packagesFilePath = "''out/dists/termux/extras/binary-all/Packages''"]
  show ?thesis
    using ctl nostat noopen by (simp add: case_prod_unfold gone)
qed

text \<open>
  C4 says that every failure while a package is placed ends the process, a failed hard link
  included.  With \<^verbatim>\<open>--use-hard-links\<close>, default component \<^verbatim>\<open>extras\<close> and the same file name in the
  input directory and in its subdirectory \<^verbatim>\<open>extras\<close>, the second \<^verbatim>\<open>os.Link\<close> fails because its
  target exists; the run goes on and lists the files of the first package a second time.
\<close>

theorem failed_hard_link_goes_unnoticed:
  "fst (foreach [''debs/foo_1.0_all.deb'', ''debs/extras/foo_1.0_all.deb'']
          (placePackage demoSys ((demoConfig ''debs/'')\<lparr>useHardLinks := True\<rparr>))
          (initial [''debs/foo_1.0_all.deb'', ''debs/extras/foo_1.0_all.deb''])) = Inr ()
   \<and> filter writesFile
       (trace (snd (foreach [''debs/foo_1.0_all.deb'', ''debs/extras/foo_1.0_all.deb'']
          (placePackage demoSys ((demoConfig ''debs/'')\<lparr>useHardLinks := True\<rparr>))
          (initial [''debs/foo_1.0_all.deb'', ''debs/extras/foo_1.0_all.deb'']))))
     = [MkdirAll ''out/dists/termux/extras/binary-all'',
        Link ''debs/foo_1.0_all.deb'' placedFoo,
        OpenAppend ''out/dists/termux/extras/Contents-all'',
        Write ''out/dists/termux/extras/Contents-all'' (padRight 80 ''usr/bin/tool'' @ '' foo'' @ [nl]),
        Link ''debs/extras/foo_1.0_all.deb'' placedFoo,
        OpenAppend ''out/dists/termux/extras/Contents-all'',
        Write ''out/dists/termux/extras/Contents-all'' (padRight 80 ''usr/bin/tool'' @ '' foo'' @ [nl])]
   \<and> os_link demoSys ''debs/extras/foo_1.0_all.deb'' placedFoo
        (world (snd (placePackage demoSys ((demoConfig ''debs/'')\<lparr>useHardLinks := True\<rparr>)
                       ''debs/foo_1.0_all.deb''
                       (initial [''debs/foo_1.0_all.deb'', ''debs/extras/foo_1.0_all.deb'']))))
      = (False, [''debs/foo_1.0_all.deb'', ''debs/extras/foo_1.0_all.deb'',
                 ''out/dists/termux/extras/binary-all'', placedFoo,
                 ''out/dists/termux/extras/Contents-all''])"
  by code_simp

text \<open>
  C5 as the specification words it fails.  The control text of \<^verbatim>\<open>debs/anon_1.0_all.deb\<close> has no
  \<^verbatim>\<open>Package\<close> line: the process ends by the panic, and the two shell commands are all it has
  done; nothing was printed, so no message names the file.
\<close>

theorem addDeb_missing_field_prints_nothing:
  "fst (addDeb demoSys (demoConfig ''debs/'') ''debs/anon_1.0_all.deb'' ''extras'' False
          (initial [''debs/anon_1.0_all.deb'']))
     = Inl (Panic ''runtime error: index out of range [1] with length 0'')
   \<and> trace (snd (addDeb demoSys (demoConfig ''debs/'') ''debs/anon_1.0_all.deb'' ''extras'' False
                    (initial [''debs/anon_1.0_all.deb''])))
     = [Exec ''ar t debs/anon_1.0_all.deb'',
        Exec ''ar p debs/anon_1.0_all.deb control.tar.xz | tar -O -J -xf - ./control'']"
  by code_simp

text \<open>
  C5, as the code has it.  When the extracted control text has no match for \<^verbatim>\<open>Package: (.*)\<close> or
  none for \<^verbatim>\<open>Architecture: (.*)\<close>, \<^verbatim>\<open>addDeb\<close> ends the process by a runtime panic (index out of
  range [1] with length 0, exit status 2) right after the extraction, and the program has written
  nothing to the error stream: no message of its own names the file.
\<close>

theorem addDeb_missing_field_panics:
  assumes "controlFileContents sys deb s = (Inr ctl, s1)"
    and "FindStringSubmatch ''Package: '' ctl = None
         \<or> FindStringSubmatch ''Architecture: '' ctl = None"
  shows "addDeb sys cfg deb component hl s
           = (Inl (Panic ''runtime error: index out of range [1] with length 0''), s1)
         \<and> exitCode (Panic ''runtime error: index out of range [1] with length 0'') = 2
         \<and> filter isStderr (drop (length (trace s)) (trace s1)) = []"
  using addDeb_missing_field [OF assms] by simp

text \<open>C5, an instance: the package without a \<^verbatim>\<open>Package\<close> line.\<close>

theorem addDeb_missing_field_panics_witness:
  "fst (controlFileContents demoSys ''debs/anon_1.0_all.deb'' (initial [''debs/anon_1.0_all.deb'']))
     = Inr (''Version: 1.0'' @ [nl] @ ''Architecture: all'' @ [nl])
   \<and> FindStringSubmatch ''Package: '' (''Version: 1.0'' @ [nl] @ ''Architecture: all'' @ [nl]) = None
   \<and> fst (addDeb demoSys (demoConfig ''debs/'') ''debs/anon_1.0_all.deb'' ''extras'' False
            (initial [''debs/anon_1.0_all.deb'']))
     = Inl (Panic ''runtime error: index out of range [1] with length 0'')"
proof -
  let ?X = "controlFileContents demoSys ''debs/anon_1.0_all.deb'' (initial [''debs/anon_1.0_all.deb''])"
  have ctl: "fst ?X = Inr (''Version: 1.0'' @ [nl] @ ''Architecture: all'' @ [nl])"
    by code_simp
  then have run: "?X = (Inr (''Version: 1.0'' @ [nl] @ ''Architecture: all'' @ [nl]), snd ?X)"
    by (metis prod.collapse)
  have missing: "FindStringSubmatch ''Package: '' (''Version: 1.0'' @ [nl] @ ''Architecture: all'' @ [nl]) = None
         \<or> FindStringSubmatch ''Architecture: '' (''Version: 1.0'' @ [nl] @ ''Architecture: all'' @ [nl]) = None"
    by code_simp
  have nopkg: "FindStringSubmatch ''Package: '' (''Version: 1.0'' @ [nl] @ ''Architecture: all'' @ [nl]) = None"
    by code_simp
  from addDeb_missing_field_panics [OF run missing, where cfg = "demoConfig ''debs/''" and component = "''extras''" and hl = False]
  show ?thesis using ctl nopkg by simp
qed

text \<open>
  C6 as the specification words it fails.  With \<^verbatim>\<open>--distribution stable\<close> the first line of the
  Release file is still \<^verbatim>\<open>Codename: termux\<close>.
\<close>

theorem codename_ignores_distribution:
  "hd (trace (snd (writeReleaseHeader demoSys ((demoConfig ''debs/'')\<lparr>distribution := ''stable''\<rparr>)
                     ''out/dists/stable/Release'' (initial []))))
     = Write ''out/dists/stable/Release'' (''Codename: termux'' @ [nl])
   \<and> ''Codename: termux''
       \<noteq> ''Codename: '' @ distribution ((demoConfig ''debs/'')\<lparr>distribution := ''stable''\<rparr>)"
  by code_simp

text \<open>
  C6, as the code has it.  The first line of the Release file is always \<^verbatim>\<open>Codename: termux\<close>,
  whatever the configured distribution; the distribution name is what the \<^verbatim>\<open>Description\<close> and
  \<^verbatim>\<open>Suite\<close> lines carry.
\<close>

theorem release_header_codename_is_termux:
  "fst (writeReleaseHeader sys cfg releaseFilePath s) = Inr ()
   \<and> take 5 (drop (length (trace s)) (trace (snd (writeReleaseHeader sys cfg releaseFilePath s))))
     = [Write releaseFilePath (''Codename: termux'' @ [nl]),
        Write releaseFilePath (''Version: 1'' @ [nl]),
        Write releaseFilePath (''Architectures: '' @ joinWith '' '' (mapKeys (encounteredArches s)) @ [nl]),
        Write releaseFilePath (''Description: '' @ distribution cfg @ '' repository'' @ [nl]),
        Write releaseFilePath (''Suite: '' @ distribution cfg @ [nl])]"
  by (simp add: writeReleaseHeader_def bnd_def fprint_eq observe_def)


text \<open>
  C7 as the specification words it fails in its second half.  The signer fails; the run ends
  normally, and between \<^verbatim>\<open>Signing with gpg...\<close> and \<^verbatim>\<open>Done!\<close> nothing is printed: the failure is not
  reported.
\<close>

theorem failed_signing_prints_nothing:
  "run_gpg demoSys
     [''--yes'', ''--pinentry-mode'', ''loopback'', ''--digest-algo'', ''SHA256'', ''--clearsign'', ''-o'',
      ''out/dists/termux/InRelease'', ''out/dists/termux/Release''] [] = (False, [])
   \<and> fst (signAndReport demoSys ((demoConfig ''debs/'')\<lparr>signRepo := True\<rparr>)
            ''out/dists/termux/Release'' ((initial [])\<lparr>COMPONENTS := [''extras'']\<rparr>)) = Inr ()
   \<and> trace (snd (signAndReport demoSys ((demoConfig ''debs/'')\<lparr>signRepo := True\<rparr>)
            ''out/dists/termux/Release'' ((initial [])\<lparr>COMPONENTS := [''extras'']\<rparr>)))
     = [Stdout (''Signing with gpg...'' @ [nl]),
        Gpg [''--yes'', ''--pinentry-mode'', ''loopback'', ''--digest-algo'', ''SHA256'', ''--clearsign'',
             ''-o'', ''out/dists/termux/InRelease'', ''out/dists/termux/Release''],
        Stdout (''Done!'' @ [nl]),
        Stdout [nl],
        Stdout (''Make the out directory accessible at $REPO_URL'' @ [nl]),
        Stdout [nl],
        Stdout (''Users can then access the repo by adding a file at'' @ [nl]),
        Stdout (''   $PREFIX/etc/apt/sources.list.d'' @ [nl]),
        Stdout (''containing:'' @ [nl]),
        Stdout (''   deb [trusted=yes] $REPO_URL termux extras'' @ [nl]),
        Stdout [nl],
        Stdout (''[trusted=yes] is not needed if the repo has been signed with a gpg key'' @ [nl])]"
  by code_simp

text \<open>
  C7, as the code has it.  Signing and the closing report never end the run, and what they print
  is fixed by the flags and the component list: the result of the signer is not looked at, so a
  failed signature prints nothing that a successful one does not.
\<close>

theorem signAndReport_output_ignores_signer:
  "fst (signAndReport sys cfg releaseFilePath s) = Inr ()
   \<and> filter isOutput (drop (length (trace s)) (trace (snd (signAndReport sys cfg releaseFilePath s))))
     = map (\<lambda>line. Stdout (line @ [nl]))
         ((if signRepo cfg then [''Signing with gpg...''] else [])
          @ [''Done!'', [], ''Make the '' @ outputPath cfg @ '' directory accessible at $REPO_URL'', [],
             ''Users can then access the repo by adding a file at'',
             ''   $PREFIX/etc/apt/sources.list.d'', ''containing:'']
          @ map (\<lambda>component. ''   deb [trusted=yes] $REPO_URL '' @ distribution cfg @ '' '' @ component)
              (COMPONENTS s)
          @ [[], ''[trusted=yes] is not needed if the repo has been signed with a gpg key''])"
  by (simp add: signAndReport_def bnd_def println_eq foreach_println act_def ret_def comp_def
        split: prod.splits)


text \<open>
  C8.  When the control text of a package gives an architecture outside \<^verbatim>\<open>all\<close>, \<^verbatim>\<open>arm\<close>,
  \<^verbatim>\<open>aarch64\<close>, \<^verbatim>\<open>addDeb\<close> ends the process with a non-zero status and has made no call that
  creates or writes a file or directory.
\<close>

theorem addDeb_unsupported_arch_writes_nothing:
  assumes "controlFileContents sys deb s = (Inr ctl, s1)"
    and "FindStringSubmatch ''Architecture: '' ctl = Some [whole, arch]"
    and "arch \<notin> set supportedArches"
  shows "\<exists>e s'. addDeb sys cfg deb component hl s = (Inl e, s')
           \<and> exitCode e \<noteq> 0
           \<and> filter writesFile (drop (length (trace s)) (trace s')) = []"
  using addDeb_unsupported_arch [OF assms] .

text \<open>C8, an instance: a package for \<^verbatim>\<open>amd64\<close>.\<close>

theorem addDeb_unsupported_arch_writes_nothing_witness:
  "fst (controlFileContents demoSys ''debs/x86_1.0_amd64.deb'' (initial [''debs/x86_1.0_amd64.deb'']))
     = Inr (''Package: x86'' @ [nl] @ ''Version: 1.0'' @ [nl] @ ''Architecture: amd64'' @ [nl])
   \<and> FindStringSubmatch ''Architecture: ''
        (''Package: x86'' @ [nl] @ ''Version: 1.0'' @ [nl] @ ''Architecture: amd64'' @ [nl])
     = Some [''Architecture: amd64'', ''amd64'']
   \<and> ''amd64'' \<notin> set supportedArches
   \<and> (\<exists>e s'. addDeb demoSys (demoConfig ''debs/'') ''debs/x86_1.0_amd64.deb'' ''extras'' False
                 (initial [''debs/x86_1.0_amd64.deb'']) = (Inl e, s')
        \<and> exitCode e \<noteq> 0
        \<and> filter writesFile (drop (length (trace (initial [''debs/x86_1.0_amd64.deb'']))) (trace s')) = [])"
proof -
  let ?X = "controlFileContents demoSys ''debs/x86_1.0_amd64.deb'' (initial [''debs/x86_1.0_amd64.deb''])"
  let ?ctl = "''Package: x86'' @ [nl] @ ''Version: 1.0'' @ [nl] @ ''Architecture: amd64'' @ [nl]"
  have ctl: "fst ?X = Inr ?ctl"
    by code_simp
  then have run: "?X = (Inr ?ctl, snd ?X)"
    by (metis prod.collapse)
  have arch: "FindStringSubmatch ''Architecture: '' ?ctl = Some [''Architecture: amd64'', ''amd64'']"
    by code_simp
  have unsupported: "''amd64'' \<notin> set supportedArches"
    by (simp add: supportedArches_def)
  from addDeb_unsupported_arch_writes_nothing [OF run arch unsupported, where cfg = "demoConfig ''debs/''" and component = "''extras''" and hl = False]
  show ?thesis using ctl arch unsupported by blast
qed

text \<open>
  C9.  In a run that starts with \<^verbatim>\<open>COMPONENTS\<close> empty, take any package \<open>d\<close> that the first loop
  reaches, after the packages \<open>pre\<close>.  The part of the run that handles \<open>d\<close> removes a directory
  exactly when no package of \<open>pre\<close> has the component of \<open>d\<close> and the component's directory is
  there; it then removes that directory, once.  A later package of the same component removes
  nothing.
\<close>

theorem component_removed_on_first_sight_only:
  assumes start: "COMPONENTS s0 = []"
    and before: "foreach pre (placePackage sys cfg) s0 = (Inr (), s1)"
    and here: "placePackage sys cfg d s1 = (r, s2)"
  shows "foreach (pre @ d # post) (placePackage sys cfg) s0
           = (case r of Inl e \<Rightarrow> (Inl e, s2) | Inr u \<Rightarrow> foreach post (placePackage sys cfg) s2)
         \<and> filter isRemoveAll (drop (length (trace s1)) (trace s2))
           = (if componentOf cfg d \<notin> componentOf cfg ` set pre
                  \<and> statOk (os_stat sys (Join [distributionPath cfg, componentOf cfg d]) (world s1))
              then [RemoveAll (Join [distributionPath cfg, componentOf cfg d])]
              else [])"
proof -
  let ?c = "componentOf cfg d"
  let ?sR = "snd (registerComponent sys cfg ?c s1)"
  have run: "foreach (pre @ d # post) (placePackage sys cfg) s0
           = (case r of Inl e \<Rightarrow> (Inl e, s2) | Inr u \<Rightarrow> foreach post (placePackage sys cfg) s2)"
    by (simp add: foreach_append before here bnd_def split: sum.splits)
  have seen: "set (COMPONENTS s1) = componentOf cfg ` set pre"
    using foreach_placePackage_COMPONENTS [OF before] start by simp
  have add: "addDeb sys cfg d ?c (useHardLinks cfg) ?sR = (r, s2)"
    using here by (simp add: placePackage_unfold)
  have t2: "trace s2 = trace ?sR @ drop (length (trace ?sR)) (trace s2)"
    by (rule steps_trace_append [OF steps_addDeb add])
  have none: "filter isRemoveAll (drop (length (trace ?sR)) (trace s2)) = []"
    using steps_trace [OF steps_addDeb add] by (simp add: filter_empty_if_none)
  have tR: "trace ?sR = trace s1 @
      (if ?c \<notin> componentOf cfg ` set pre
          \<and> statOk (os_stat sys (Join [distributionPath cfg, ?c]) (world s1))
       then [RemoveAll (Join [distributionPath cfg, ?c])] else [])"
    by (simp add: registerComponent_eq contains_iff seen)
  have "drop (length (trace s1)) (trace s2) =
      (if ?c \<notin> componentOf cfg ` set pre
          \<and> statOk (os_stat sys (Join [distributionPath cfg, ?c]) (world s1))
       then [RemoveAll (Join [distributionPath cfg, ?c])] else [])
      @ drop (length (trace ?sR)) (trace s2)"
    by (subst t2, subst tR) simp
  with none have "filter isRemoveAll (drop (length (trace s1)) (trace s2))
           = (if ?c \<notin> componentOf cfg ` set pre
                  \<and> statOk (os_stat sys (Join [distributionPath cfg, ?c]) (world s1))
              then [RemoveAll (Join [distributionPath cfg, ?c])]
              else [])"
    by simp
  with run show ?thesis by simp
qed


text \<open>C9, an instance: two packages of the component \<^verbatim>\<open>extras\<close>, whose directory exists; the
  first one removes it, the second one removes nothing.\<close>

theorem component_removed_on_first_sight_only_witness:
  "COMPONENTS (initial (''debs/foo_1.0_all.deb'' # ''debs/bar_1.0_arm.deb'' # oldTree)) = []
   \<and> fst (foreach [''debs/foo_1.0_all.deb''] (placePackage demoSys (demoConfig ''debs/''))
            (initial (''debs/foo_1.0_all.deb'' # ''debs/bar_1.0_arm.deb'' # oldTree))) = Inr ()
   \<and> filter isRemoveAll
       (trace (snd (foreach [''debs/foo_1.0_all.deb''] (placePackage demoSys (demoConfig ''debs/''))
                      (initial (''debs/foo_1.0_all.deb'' # ''debs/bar_1.0_arm.deb'' # oldTree)))))
     = [RemoveAll ''out/dists/termux/extras'']
   \<and> filter isRemoveAll
       (drop (length (trace (snd (foreach [''debs/foo_1.0_all.deb'']
                                    (placePackage demoSys (demoConfig ''debs/''))
                                    (initial (''debs/foo_1.0_all.deb'' # ''debs/bar_1.0_arm.deb'' # oldTree))))))
          (trace (snd (placePackage demoSys (demoConfig ''debs/'') ''debs/bar_1.0_arm.deb''
                         (snd (foreach [''debs/foo_1.0_all.deb'']
                                 (placePackage demoSys (demoConfig ''debs/''))
                                 (initial (''debs/foo_1.0_all.deb'' # ''debs/bar_1.0_arm.deb'' # oldTree))))))))
     = []"
proof -
  let ?s0 = "initial (''debs/foo_1.0_all.deb'' # ''debs/bar_1.0_arm.deb'' # oldTree)"
  let ?F = "foreach [''debs/foo_1.0_all.deb''] (placePackage demoSys (demoConfig ''debs/'')) ?s0"
  let ?P = "placePackage demoSys (demoConfig ''debs/'') ''debs/bar_1.0_arm.deb'' (snd ?F)"
  have start: "COMPONENTS ?s0 = []"
    by (simp add: initial_def)
  have ok: "fst ?F = Inr ()"
    by code_simp
  then have before: "?F = (Inr (), snd ?F)"
    by (metis prod.collapse)
  have here: "?P = (fst ?P, snd ?P)"
    by simp
  have first: "filter isRemoveAll (trace (snd ?F)) = [RemoveAll ''out/dists/termux/extras'']"
    by code_simp
  have c1: "componentOf (demoConfig ''debs/'') ''debs/foo_1.0_all.deb'' = ''extras''"
    by code_simp
  have c2: "componentOf (demoConfig ''debs/'') ''debs/bar_1.0_arm.deb'' = ''extras''"
    by code_simp
  from component_removed_on_first_sight_only [OF start before here, where post = "[]"]
  have "filter isRemoveAll (drop (length (trace (snd ?F))) (trace (snd ?P))) = []"
    by (simp add: c1 c2)
  with start ok first show ?thesis by simp
qed

text \<open>
  C10.  When the first package of a component whose directory exists fails classification (a field
  is missing from its control text, or its architecture is unsupported), the run ends there, the
  removal of the component's directory is already in the trace, and no call after it creates or
  writes anything.
\<close>

theorem component_removed_before_classification_abort:
  assumes first: "\<not> contains (COMPONENTS s) (componentOf cfg d)"
    and exists: "statOk (os_stat sys (Join [distributionPath cfg, componentOf cfg d]) (world s))"
    and ctl: "controlFileContents sys d (snd (registerComponent sys cfg (componentOf cfg d) s))
                = (Inr ctl, s1)"
    and fails: "FindStringSubmatch ''Package: '' ctl = None
                \<or> FindStringSubmatch ''Architecture: '' ctl = None
                \<or> (\<exists>whole arch. FindStringSubmatch ''Architecture: '' ctl = Some [whole, arch]
                      \<and> arch \<notin> set supportedArches)"
  shows "\<exists>e s' evs. placePackage sys cfg d s = (Inl e, s')
           \<and> trace s' = trace s @ RemoveAll (Join [distributionPath cfg, componentOf cfg d]) # evs
           \<and> filter writesFile evs = []"
proof -
  let ?c = "componentOf cfg d"
  let ?sR = "snd (registerComponent sys cfg ?c s)"
  have tR: "trace ?sR = trace s @ [RemoveAll (Join [distributionPath cfg, ?c])]"
    using first exists by (simp add: registerComponent_eq)
  have "\<exists>e s'. addDeb sys cfg d ?c (useHardLinks cfg) ?sR = (Inl e, s')
           \<and> filter writesFile (drop (length (trace ?sR)) (trace s')) = []"
  proof -
    have quiet: "steps (\<lambda>e. \<not> writesFile e) (controlFileContents sys d)"
      by (rule steps_controlFileContents) simp_all
    from steps_trace [OF quiet ctl]
    have nw1: "filter writesFile (drop (length (trace ?sR)) (trace s1)) = []"
      by (simp add: filter_empty_if_none)
    from fails show ?thesis
    proof (elim disjE exE conjE)
      assume "FindStringSubmatch ''Package: '' ctl = None"
      then show ?thesis using addDeb_missing_field [OF ctl] nw1 by blast
    next
      assume "FindStringSubmatch ''Architecture: '' ctl = None"
      then show ?thesis using addDeb_missing_field [OF ctl] nw1 by blast
    next
      fix whole arch
      assume "FindStringSubmatch ''Architecture: '' ctl = Some [whole, arch]"
        and "arch \<notin> set supportedArches"
      from addDeb_unsupported_arch [OF ctl this] show ?thesis by blast
    qed
  qed
  then obtain e s' where add: "addDeb sys cfg d ?c (useHardLinks cfg) ?sR = (Inl e, s')"
    and nw: "filter writesFile (drop (length (trace ?sR)) (trace s')) = []" by blast
  have "trace s' = trace ?sR @ drop (length (trace ?sR)) (trace s')"
    by (rule steps_trace_append [OF steps_addDeb add])
  with tR have "trace s' = trace s @ RemoveAll (Join [distributionPath cfg, ?c])
                  # drop (length (trace ?sR)) (trace s')" by simp
  with add nw show ?thesis by (auto simp: placePackage_unfold)
qed

text \<open>C10, an instance: the first package of \<^verbatim>\<open>extras\<close> has no \<^verbatim>\<open>Package\<close> line.\<close>

theorem component_removed_before_classification_abort_witness:
  "\<not> contains (COMPONENTS (initial (''debs/anon_1.0_all.deb'' # oldTree)))
         (componentOf (demoConfig ''debs/'') ''debs/anon_1.0_all.deb'')
   \<and> statOk (os_stat demoSys
               (Join [distributionPath (demoConfig ''debs/''),
                      componentOf (demoConfig ''debs/'') ''debs/anon_1.0_all.deb''])
               (world (initial (''debs/anon_1.0_all.deb'' # oldTree))))
   \<and> FindStringSubmatch ''Package: '' (''Version: 1.0'' @ [nl] @ ''Architecture: all'' @ [nl]) = None
   \<and> Join [distributionPath (demoConfig ''debs/''),
            componentOf (demoConfig ''debs/'') ''debs/anon_1.0_all.deb''] = ''out/dists/termux/extras''
   \<and> (\<exists>e s' evs. placePackage demoSys (demoConfig ''debs/'') ''debs/anon_1.0_all.deb''
                     (initial (''debs/anon_1.0_all.deb'' # oldTree)) = (Inl e, s')
          \<and> trace s' = trace (initial (''debs/anon_1.0_all.deb'' # oldTree))
                         @ RemoveAll ''out/dists/termux/extras'' # evs
          \<and> filter writesFile evs = [])"
proof -
  let ?cfg = "demoConfig ''debs/''"
  let ?d = "''debs/anon_1.0_all.deb''"
  let ?s = "initial (?d # oldTree)"
  let ?ctl = "''Version: 1.0'' @ [nl] @ ''Architecture: all'' @ [nl]"
  let ?X = "controlFileContents demoSys ?d (snd (registerComponent demoSys ?cfg (componentOf ?cfg ?d) ?s))"
  have first: "\<not> contains (COMPONENTS ?s) (componentOf ?cfg ?d)"
    by (simp add: initial_def)
  have there: "statOk (os_stat demoSys (Join [distributionPath ?cfg, componentOf ?cfg ?d]) (world ?s))"
    by code_simp
  have "fst ?X = Inr ?ctl"
    by code_simp
  then have ctl: "?X = (Inr ?ctl, snd ?X)"
    by (metis prod.collapse)
  have nopkg: "FindStringSubmatch ''Package: '' ?ctl = None"
    by code_simp
  then have fails: "FindStringSubmatch ''Package: '' ?ctl = None
                \<or> FindStringSubmatch ''Architecture: '' ?ctl = None
                \<or> (\<exists>whole arch. FindStringSubmatch ''Architecture: '' ?ctl = Some [whole, arch]
                      \<and> arch \<notin> set supportedArches)"
    by simp
  have dir: "Join [distributionPath ?cfg, componentOf ?cfg ?d] = ''out/dists/termux/extras''"
    by code_simp
  from component_removed_before_classification_abort [OF first there ctl fails]
  show ?thesis using first there nopkg dir by simp
qed

end
